theory Spec2Isabelle
  imports Main
begin

section \<open>The entry script \<open>run_smolagents.py\<close>\<close>

text \<open>
  The script under verification:
  \<^verbatim>\<open>
  from smolagents import CodeAgent

  try:
      agent = CodeAgent(tools=[])
      result = agent.run("What is the 15th prime number?")
      print(result)
  except Exception as e:
      print(f"Error running CodeAgent: {e}")
  \<close>
  The library \<open>smolagents\<close> is external. It is a parameter of the model: a record of
  what its import, its constructor and its \<open>run\<close> method do when the script calls them.
  The standard output stream belongs to the process, not to the script: it is a second
  parameter, a record of which writes it accepts and whether its last flush fails.
\<close>

subsection \<open>Python values\<close>

text \<open>A Python text is a sequence of Unicode code points; \<open>ascii\<close> reads a literal.\<close>

type_synonym pytext = "nat list"

definition ascii :: "string \<Rightarrow> pytext" where
  "ascii s = map of_char s"

text \<open>
  The class of a raised object, as far as \<open>except Exception\<close> and the interpreter's exit
  can tell: \<open>Exception\<close> or a class derived from it, or one of the classes that derive from
  \<open>BaseException\<close> only. \<open>SystemExit\<close> carries its integer exit code.
\<close>

datatype exc_class =
    Exception_subclass
  | KeyboardInterrupt
  | SystemExit int
  | GeneratorExit
  | BaseException_other

text \<open>
  A raised object is its class, what \<open>str(e)\<close> does (return a text, or raise in turn), and
  what its class's own \<open>__format__\<close> does with the empty format specification when the
  class defines one (\<open>None\<close> when it does not).
\<close>

datatype pyexc =
  PyExc (class_of: exc_class) (exc_str: "pyexc + pytext") (format_override: "(pyexc + pytext) option")

text \<open>
  \<open>format(e, '')\<close>, which is what the replacement field \<open>{e}\<close> of an f-string evaluates:
  the class's \<open>__format__\<close>, and \<open>object.__format__\<close> otherwise, which returns \<open>str(e)\<close>
  for the empty specification.
\<close>

definition format_empty :: "pyexc \<Rightarrow> pyexc + pytext" where
  "format_empty e = (case format_override e of None \<Rightarrow> exc_str e | Some r \<Rightarrow> r)"

text \<open>
  The value returned by \<open>agent.run\<close> has no shape the script relies on; the script only
  prints it, which calls \<open>str\<close> on it.
\<close>

datatype pyobj = PyObj (obj_str: "pyexc + pytext")

text \<open>The argument values the script passes: a string literal and a list display.\<close>

datatype pyarg = PyStr string | PyList "pyarg list"

type_synonym kwargs = "(string \<times> pyarg) list"

subsection \<open>The external library\<close>

text \<open>
  \<open>Inl e\<close> is \<open>raise e\<close>, \<open>Inr v\<close> is \<open>return v\<close>. The import either raises
  (\<open>Some e\<close>) or binds the name \<open>CodeAgent\<close>. The type \<open>'a\<close> is the agent object.
\<close>

record 'a smolagents =
  import_CodeAgent :: "pyexc option"
  CodeAgent :: "pyarg list \<Rightarrow> kwargs \<Rightarrow> pyexc + 'a"
  run :: "'a \<Rightarrow> pyarg list \<Rightarrow> kwargs \<Rightarrow> pyexc + pyobj"

subsection \<open>The standard output stream\<close>

text \<open>
  Writing a text to \<open>sys.stdout\<close> raises (\<open>Some e\<close>: a \<open>UnicodeEncodeError\<close> for a text
  the stream's encoding cannot encode, a \<open>ValueError\<close> on a closed stream) or is accepted.
  The flush of the stream when the interpreter exits fails or not, given the text accepted.
\<close>

record stdout_stream =
  stdout_write :: "pytext \<Rightarrow> pyexc option"
  final_flush_fails :: "pytext \<Rightarrow> bool"

subsection \<open>Effects: standard output and the steps taken\<close>

datatype 'a event =
    Import
  | Construct "pyarg list" kwargs
  | Run 'a "pyarg list" kwargs
  | Caught pyexc
  | Print pytext

record 'a state =
  trace :: "'a event list"
  stdout :: pytext

definition initial :: "'a state" where
  "initial = \<lparr>trace = [], stdout = []\<rparr>"

definition emit :: "'a event \<Rightarrow> 'a state \<Rightarrow> 'a state" where
  "emit ev s = s\<lparr>trace := trace s @ [ev]\<rparr>"

definition newline :: pytext where
  "newline = [10]"

text \<open>
  \<open>print(text)\<close> for a text: the write raises and nothing reaches the stream, or the text
  and the line terminator do.
\<close>

definition print_text :: "stdout_stream \<Rightarrow> pytext \<Rightarrow> 'a state \<Rightarrow> (pyexc + unit) \<times> 'a state" where
  "print_text out text s =
     (case stdout_write out text of
        Some e \<Rightarrow> (Inl e, s)
      | None \<Rightarrow> (Inr (), (emit (Print text) s)\<lparr>stdout := stdout s @ text @ newline\<rparr>))"

text \<open>\<open>print(result)\<close> for an object: \<open>str(result)\<close> first, which may raise, then the write.\<close>

definition print_obj :: "stdout_stream \<Rightarrow> pyobj \<Rightarrow> 'a state \<Rightarrow> (pyexc + unit) \<times> 'a state" where
  "print_obj out obj s =
     (case obj_str obj of
        Inl e \<Rightarrow> (Inl e, s)
      | Inr text \<Rightarrow> print_text out text s)"

subsection \<open>The script\<close>

definition tools_empty :: kwargs where
  "tools_empty = [(''tools'', PyList [])]"

definition question :: "pyarg list" where
  "question = [PyStr ''What is the 15th prime number?'']"

text \<open>The body of \<open>try\<close>: the first statement that raises ends it.\<close>

definition try_body ::
  "stdout_stream \<Rightarrow> 'a smolagents \<Rightarrow> 'a state \<Rightarrow> (pyexc + unit) \<times> 'a state" where
  "try_body out lib s0 =
     (let s1 = emit (Construct [] tools_empty) s0 in
      case CodeAgent lib [] tools_empty of
        Inl e \<Rightarrow> (Inl e, s1)
      | Inr agent \<Rightarrow>
          (let s2 = emit (Run agent question []) s1 in
           case run lib agent question [] of
             Inl e \<Rightarrow> (Inl e, s2)
           | Inr result \<Rightarrow> print_obj out result s2))"

text \<open>
  The handler: the f-string formats \<open>e\<close> with \<open>format(e, '')\<close>, which may raise, and the
  print may raise; an exception raised here is inside no \<open>try\<close>.
\<close>

definition error_line :: "pyexc \<Rightarrow> pyexc + pytext" where
  "error_line e =
     (case format_empty e of
        Inl e' \<Rightarrow> Inl e'
      | Inr message \<Rightarrow> Inr (ascii ''Error running CodeAgent: '' @ message))"

definition handler :: "stdout_stream \<Rightarrow> pyexc \<Rightarrow> 'a state \<Rightarrow> (pyexc + unit) \<times> 'a state" where
  "handler out e s =
     (let s1 = emit (Caught e) s in
      case error_line e of
        Inl e' \<Rightarrow> (Inl e', s1)
      | Inr text \<Rightarrow> print_text out text s1)"

text \<open>\<open>except Exception\<close> matches an instance of \<open>Exception\<close> or of a class derived from it.\<close>

definition is_Exception :: "pyexc \<Rightarrow> bool" where
  "is_Exception e \<longleftrightarrow> class_of e = Exception_subclass"

datatype finish = Completed | Uncaught pyexc

definition try_except ::
  "stdout_stream \<Rightarrow> 'a smolagents \<Rightarrow> 'a state \<Rightarrow> (pyexc + unit) \<times> 'a state" where
  "try_except out lib s =
     (case try_body out lib s of
        (Inr u, s') \<Rightarrow> (Inr u, s')
      | (Inl e, s') \<Rightarrow> if is_Exception e then handler out e s' else (Inl e, s'))"

definition script :: "stdout_stream \<Rightarrow> 'a smolagents \<Rightarrow> finish \<times> 'a state" where
  "script out lib =
     (let s0 = emit Import initial in
      case import_CodeAgent lib of
        Some e \<Rightarrow> (Uncaught e, s0)
      | None \<Rightarrow>
          (case try_except out lib s0 of
             (Inl e, s) \<Rightarrow> (Uncaught e, s)
           | (Inr u, s) \<Rightarrow> (Completed, s)))"

definition outcome :: "stdout_stream \<Rightarrow> 'a smolagents \<Rightarrow> finish" where
  "outcome out lib = fst (script out lib)"

definition stdout_of :: "stdout_stream \<Rightarrow> 'a smolagents \<Rightarrow> pytext" where
  "stdout_of out lib = stdout (snd (script out lib))"

definition steps :: "stdout_stream \<Rightarrow> 'a smolagents \<Rightarrow> 'a event list" where
  "steps out lib = trace (snd (script out lib))"

text \<open>The texts handed to \<open>print\<close> and written, one per call, in order.\<close>

fun printed :: "'a event list \<Rightarrow> pytext list" where
  "printed [] = []"
| "printed (Print text # evs) = text # printed evs"
| "printed (_ # evs) = printed evs"

subsection \<open>The interpreter's exit\<close>

text \<open>
  An uncaught \<open>KeyboardInterrupt\<close> ends the process by \<open>SIGINT\<close>. Otherwise, when the last
  flush of standard output fails the status is 120; else a script that runs to its end
  exits with status 0, an uncaught \<open>SystemExit\<close> with the low eight bits of its code, and
  any other uncaught exception with status 1.
\<close>

datatype exit_status = Exit_code nat | Killed_by_SIGINT

fun exit_status_of :: "bool \<Rightarrow> finish \<Rightarrow> exit_status" where
  "exit_status_of flush_failed Completed = Exit_code (if flush_failed then 120 else 0)"
| "exit_status_of flush_failed (Uncaught e) =
     (case class_of e of
        KeyboardInterrupt \<Rightarrow> Killed_by_SIGINT
      | SystemExit n \<Rightarrow> Exit_code (if flush_failed then 120 else nat (n mod 256))
      | _ \<Rightarrow> Exit_code (if flush_failed then 120 else 1))"

definition exit_status :: "stdout_stream \<Rightarrow> 'a smolagents \<Rightarrow> exit_status" where
  "exit_status out lib =
     exit_status_of (final_flush_fails out (stdout_of out lib)) (outcome out lib)"

subsection \<open>Which failures the handler reports\<close>

text \<open>
  The failure that ends the body of \<open>try\<close>, if any: raised by the construction, by the run,
  by \<open>str(result)\<close> or by writing the result.
\<close>

definition raised_in_try :: "stdout_stream \<Rightarrow> 'a smolagents \<Rightarrow> pyexc option" where
  "raised_in_try out lib =
     (case CodeAgent lib [] tools_empty of
        Inl e \<Rightarrow> Some e
      | Inr agent \<Rightarrow>
          (case run lib agent question [] of
             Inl e \<Rightarrow> Some e
           | Inr result \<Rightarrow>
               (case obj_str result of Inl e \<Rightarrow> Some e | Inr text \<Rightarrow> stdout_write out text)))"

text \<open>
  A failure the handler reports: \<open>except Exception\<close> matches it, \<open>format(e, '')\<close> returns,
  and the stream accepts the error line.
\<close>

definition reported :: "stdout_stream \<Rightarrow> pyexc \<Rightarrow> bool" where
  "reported out e \<longleftrightarrow>
     is_Exception e \<and>
     (case format_empty e of
        Inl _ \<Rightarrow> False
      | Inr message \<Rightarrow> stdout_write out (ascii ''Error running CodeAgent: '' @ message) = None)"

definition failures_reported :: "stdout_stream \<Rightarrow> 'a smolagents \<Rightarrow> bool" where
  "failures_reported out lib =
     (case raised_in_try out lib of None \<Rightarrow> True | Some e \<Rightarrow> reported out e)"

text \<open>The calls into the library among the steps.\<close>

fun is_call :: "'a event \<Rightarrow> bool" where
  "is_call (Construct args kw) = True"
| "is_call (Run agent args kw) = True"
| "is_call _ = False"

fun is_Construct :: "'a event \<Rightarrow> bool" where
  "is_Construct (Construct args kw) = True"
| "is_Construct _ = False"

fun is_Run :: "'a event \<Rightarrow> bool" where
  "is_Run (Run agent args kw) = True"
| "is_Run _ = False"

text \<open>
  The position of a step in the script's text: import, construction, run, entry into the
  handler, print.
\<close>

fun stage :: "'a event \<Rightarrow> nat" where
  "stage Import = 0"
| "stage (Construct args kw) = 1"
| "stage (Run agent args kw) = 2"
| "stage (Caught e) = 3"
| "stage (Print text) = 4"

subsection \<open>Behaviours of the library and of the stream used as test doubles\<close>

text \<open>Failures a library can raise.\<close>

definition missing_model :: pyexc where
  "missing_model =
     PyExc Exception_subclass (Inr (ascii ''missing 1 required positional argument: model'')) None"

definition not_installed :: pyexc where
  "not_installed = PyExc Exception_subclass (Inr (ascii ''No module named smolagents'')) None"

definition interrupt :: pyexc where
  "interrupt = PyExc KeyboardInterrupt (Inr []) None"

definition sys_exit_1 :: pyexc where
  "sys_exit_1 = PyExc (SystemExit 1) (Inr (ascii ''1'')) None"

text \<open>A \<open>ValueError\<close> whose message is the lone surrogate \<open>U+D800\<close>.\<close>

definition surrogate_error :: pyexc where
  "surrogate_error = PyExc Exception_subclass (Inr [55296]) None"

text \<open>An \<open>Exception\<close> whose class defines \<open>__format__\<close>: \<open>str\<close> gives \<open>S\<close>, \<open>format\<close> gives \<open>F\<close>.\<close>

definition formatted_error :: pyexc where
  "formatted_error = PyExc Exception_subclass (Inr (ascii ''S'')) (Some (Inr (ascii ''F'')))"

text \<open>The \<open>UnicodeEncodeError\<close> a stream raises for a text it cannot encode.\<close>

definition encode_error :: pyexc where
  "encode_error = PyExc Exception_subclass (Inr (ascii ''codec cannot encode character'')) None"

text \<open>
  Streams: one encoding to UTF-8, which refuses surrogates; one encoding to ASCII, which
  refuses code points from 128; one on a full device, which accepts every write into its
  buffer and fails to flush it.
\<close>

definition utf8_stdout :: stdout_stream where
  "utf8_stdout =
     \<lparr>stdout_write =
        (\<lambda>text. if list_ex (\<lambda>c. 55296 \<le> c \<and> c \<le> 57343) text then Some encode_error else None),
      final_flush_fails = (\<lambda>written. False)\<rparr>"

definition ascii_stdout :: stdout_stream where
  "ascii_stdout =
     \<lparr>stdout_write = (\<lambda>text. if list_ex (\<lambda>c. 128 \<le> c) text then Some encode_error else None),
      final_flush_fails = (\<lambda>written. False)\<rparr>"

definition full_device :: stdout_stream where
  "full_device =
     \<lparr>stdout_write = (\<lambda>text. None), final_flush_fails = (\<lambda>written. written \<noteq> [])\<rparr>"

text \<open>Libraries. The agent object of the test doubles is a number.\<close>

definition lib_answers :: "nat smolagents" where
  "lib_answers =
     \<lparr>import_CodeAgent = None,
      CodeAgent = (\<lambda>args kw. Inr 7),
      run = (\<lambda>agent args kw. Inr (PyObj (Inr (ascii ''47''))))\<rparr>"

definition lib_missing_model :: "nat smolagents" where
  "lib_missing_model = lib_answers\<lparr>CodeAgent := (\<lambda>args kw. Inl missing_model)\<rparr>"

definition lib_run_fails :: "nat smolagents" where
  "lib_run_fails = lib_answers\<lparr>run := (\<lambda>agent args kw. Inl missing_model)\<rparr>"

definition lib_not_installed :: "nat smolagents" where
  "lib_not_installed = lib_answers\<lparr>import_CodeAgent := Some not_installed\<rparr>"

definition lib_interrupted :: "nat smolagents" where
  "lib_interrupted = lib_answers\<lparr>run := (\<lambda>agent args kw. Inl interrupt)\<rparr>"

definition lib_construct_interrupted :: "nat smolagents" where
  "lib_construct_interrupted = lib_answers\<lparr>CodeAgent := (\<lambda>args kw. Inl interrupt)\<rparr>"

definition lib_exits :: "nat smolagents" where
  "lib_exits = lib_answers\<lparr>run := (\<lambda>agent args kw. Inl sys_exit_1)\<rparr>"

definition lib_result_str_fails :: "nat smolagents" where
  "lib_result_str_fails = lib_answers\<lparr>run := (\<lambda>agent args kw. Inr (PyObj (Inl missing_model)))\<rparr>"

definition lib_surrogate :: "nat smolagents" where
  "lib_surrogate = lib_answers\<lparr>run := (\<lambda>agent args kw. Inr (PyObj (Inr [55296])))\<rparr>"

definition lib_accent :: "nat smolagents" where
  "lib_accent = lib_answers\<lparr>run := (\<lambda>agent args kw. Inr (PyObj (Inr [233])))\<rparr>"

definition lib_raises_surrogate :: "nat smolagents" where
  "lib_raises_surrogate = lib_answers\<lparr>run := (\<lambda>agent args kw. Inl surrogate_error)\<rparr>"

definition lib_formatted :: "nat smolagents" where
  "lib_formatted = lib_answers\<lparr>run := (\<lambda>agent args kw. Inl formatted_error)\<rparr>"

text \<open>
  A library that answers as \<open>lib_answers\<close> does on the calls the script makes and fails on
  every other call.
\<close>

definition lib_strict :: "nat smolagents" where
  "lib_strict =
     \<lparr>import_CodeAgent = None,
      CodeAgent = (\<lambda>args kw. if args = [] \<and> kw = tools_empty then Inr 7 else Inl missing_model),
      run = (\<lambda>agent args kw.
        if agent = 7 \<and> args = question \<and> kw = [] then Inr (PyObj (Inr (ascii ''47'')))
        else Inl interrupt)\<rparr>"

section \<open>Properties of the script\<close>

lemmas script_defs = script_def try_except_def try_body_def handler_def error_line_def
  print_obj_def print_text_def emit_def initial_def outcome_def stdout_of_def steps_def
  tools_empty_def question_def

lemmas doubles = lib_answers_def lib_missing_model_def lib_run_fails_def lib_not_installed_def
  lib_interrupted_def lib_construct_interrupted_def lib_exits_def lib_result_str_fails_def
  lib_surrogate_def lib_accent_def lib_raises_surrogate_def lib_formatted_def
  lib_strict_def missing_model_def not_installed_def interrupt_def sys_exit_1_def
  surrogate_error_def formatted_error_def encode_error_def
  is_Exception_def newline_def format_empty_def


lemmas streams = utf8_stdout_def ascii_stdout_def full_device_def

subsection \<open>Texts the streams accept\<close>

lemma of_char_below: "(of_char c :: nat) < 256"
proof -
  have "(of_char c :: nat) mod 256 = of_char c" by simp
  moreover have "(of_char c :: nat) mod 256 < 256" by simp
  ultimately show ?thesis by simp
qed

lemma ascii_below: "c \<in> set (ascii s) \<Longrightarrow> c < 256"
  by (auto simp: ascii_def of_char_below)

lemma utf8_accepts:
  "\<forall>c \<in> set text. c < 55296 \<Longrightarrow> stdout_write utf8_stdout text = None"
  by (auto simp: utf8_stdout_def list_ex_iff)

lemma utf8_accepts_ascii [simp]: "stdout_write utf8_stdout (ascii s) = None"
  by (rule utf8_accepts) (auto dest: ascii_below)

lemma utf8_accepts_ascii_append [simp]:
  "stdout_write utf8_stdout (ascii s @ ascii t) = None"
  by (rule utf8_accepts) (auto dest: ascii_below)

lemma utf8_refuses_surrogate [simp]:
  "stdout_write utf8_stdout [55296] = Some encode_error"
  by (simp add: utf8_stdout_def)

lemma utf8_refuses_surrogate_line [simp]:
  "stdout_write utf8_stdout (ascii s @ [55296]) = Some encode_error"
  by (simp add: utf8_stdout_def)

lemma utf8_flushes [simp]: "final_flush_fails utf8_stdout written = False"
  by (simp add: utf8_stdout_def)

text \<open>A class that does not define \<open>__format__\<close> formats as \<open>str\<close>.\<close>

lemma format_empty_default: "format_override e = None \<Longrightarrow> format_empty e = exc_str e"
  by (simp add: format_empty_def)

subsection \<open>Why the handler's report needs more than a caught \<open>Exception\<close>\<close>

text \<open>
  A \<open>run\<close> that raises a \<open>ValueError\<close> whose message is a lone surrogate: the handler
  catches it, the print of the error line raises \<open>UnicodeEncodeError\<close> on a UTF-8 stream,
  nothing is printed and the process exits with status 1.
\<close>

lemma handler_print_can_raise:
  "is_Exception surrogate_error \<and> exc_str surrogate_error = Inr [55296] \<and>
   outcome utf8_stdout lib_raises_surrogate = Uncaught encode_error \<and>
   stdout_of utf8_stdout lib_raises_surrogate = [] \<and>
   exit_status utf8_stdout lib_raises_surrogate = Exit_code 1"
  by (simp add: exit_status_def script_defs doubles)

text \<open>
  A \<open>run\<close> that raises an \<open>Exception\<close> whose class defines \<open>__format__\<close>: the error line
  carries the formatted text \<open>F\<close>, not \<open>str(e)\<close>, which is \<open>S\<close>.
\<close>

lemma handler_prints_format:
  "exc_str formatted_error = Inr (ascii ''S'') \<and>
   printed (steps utf8_stdout lib_formatted) = [ascii ''Error running CodeAgent: '' @ ascii ''F''] \<and>
   ascii ''F'' \<noteq> ascii ''S''"
  by (simp add: script_defs doubles) (simp add: ascii_def)

text \<open>
  On a full device every write is accepted, the flush at exit fails, and the status of a
  script that ran to its end is 120.
\<close>

lemma flush_failure_status:
  "outcome full_device lib_answers = Completed \<and>
   exit_status full_device lib_answers = Exit_code 120"
  by (simp add: exit_status_def script_defs doubles streams)

subsection \<open>Termination without an uncaught exception\<close>

text \<open>
  C1, as amended. The script runs to its end, with no exception leaving it, exactly in the
  executions where the import succeeds and whatever ends the body of \<open>try\<close> (a failure of
  the construction, of the run, of \<open>str(result)\<close> or of writing the result) is an instance
  of \<open>Exception\<close> that the handler can report: \<open>format(e, '')\<close> returns and standard output
  accepts the error line. For a failure of any other class the claim as stated fails.
\<close>

theorem script_completes:
  "outcome out lib = Completed \<longleftrightarrow> import_CodeAgent lib = None \<and> failures_reported out lib"
  unfolding script_defs failures_reported_def raised_in_try_def reported_def
  by (auto simp: Let_def split: option.splits sum.splits)

text \<open>At a constructor that raises a \<open>TypeError\<close> for its missing argument.\<close>

theorem script_completes_witness:
  "import_CodeAgent lib_missing_model = None \<and>
   failures_reported utf8_stdout lib_missing_model \<and>
   outcome utf8_stdout lib_missing_model = Completed"
  using script_completes [of utf8_stdout lib_missing_model]
  by (simp add: failures_reported_def raised_in_try_def reported_def doubles tools_empty_def)

text \<open>
  A constructor that raises \<open>KeyboardInterrupt\<close>: the exception leaves the script uncaught.
\<close>

theorem script_completes_counterexample:
  "import_CodeAgent lib_construct_interrupted = None \<and>
   CodeAgent lib_construct_interrupted [] [(''tools'', PyList [])] = Inl interrupt \<and>
   outcome utf8_stdout lib_construct_interrupted = Uncaught interrupt"
  by (simp add: script_defs doubles)

subsection \<open>The error line\<close>

text \<open>
  C2, as amended. For every failure \<open>e\<close> raised by the construction or by the run that is an
  instance of \<open>Exception\<close>, whose formatted text \<open>format(e, '')\<close> is \<open>message\<close> (this is
  \<open>str(e)\<close> when the class of \<open>e\<close> defines no \<open>__format__\<close>), and whose error line standard
  output accepts, the script prints exactly \<open>Error running CodeAgent: \<close> followed by
  \<open>message\<close> to standard output and runs to its end: nothing is raised again.
\<close>

theorem error_line_printed:
  assumes "import_CodeAgent lib = None"
    and "CodeAgent lib [] [(''tools'', PyList [])] = Inl e \<or>
         (\<exists>agent. CodeAgent lib [] [(''tools'', PyList [])] = Inr agent \<and>
                  run lib agent [PyStr ''What is the 15th prime number?''] [] = Inl e)"
    and "is_Exception e"
    and "format_empty e = Inr message"
    and "stdout_write out (ascii ''Error running CodeAgent: '' @ message) = None"
  shows "printed (steps out lib) = [ascii ''Error running CodeAgent: '' @ message] \<and>
         stdout_of out lib = ascii ''Error running CodeAgent: '' @ message @ newline \<and>
         outcome out lib = Completed"
  using assms unfolding script_defs
  by (auto simp: Let_def)

text \<open>At a \<open>run\<close> that raises a \<open>TypeError\<close>, whose class defines no \<open>__format__\<close>.\<close>

theorem error_line_printed_witness:
  "import_CodeAgent lib_run_fails = None \<and>
   CodeAgent lib_run_fails [] [(''tools'', PyList [])] = Inr 7 \<and>
   run lib_run_fails 7 [PyStr ''What is the 15th prime number?''] [] = Inl missing_model \<and>
   is_Exception missing_model \<and>
   format_override missing_model = None \<and>
   exc_str missing_model = Inr (ascii ''missing 1 required positional argument: model'') \<and>
   stdout_of utf8_stdout lib_run_fails =
     ascii ''Error running CodeAgent: '' @
     ascii ''missing 1 required positional argument: model'' @ newline \<and>
   outcome utf8_stdout lib_run_fails = Completed"
  using error_line_printed [of lib_run_fails missing_model
      "ascii ''missing 1 required positional argument: model''" utf8_stdout]
  by (simp add: doubles)

text \<open>
  A \<open>run\<close> that raises \<open>KeyboardInterrupt\<close>, whose text is empty: nothing is printed, not
  the error line, and the exception leaves the script.
\<close>

theorem error_line_printed_counterexample:
  "import_CodeAgent lib_interrupted = None \<and>
   CodeAgent lib_interrupted [] [(''tools'', PyList [])] = Inr 7 \<and>
   run lib_interrupted 7 [PyStr ''What is the 15th prime number?''] [] = Inl interrupt \<and>
   exc_str interrupt = Inr [] \<and>
   stdout_of utf8_stdout lib_interrupted = [] \<and>
   stdout_of utf8_stdout lib_interrupted \<noteq> ascii ''Error running CodeAgent: '' @ [] @ newline \<and>
   outcome utf8_stdout lib_interrupted = Uncaught interrupt"
  by (simp add: script_defs doubles)

subsection \<open>The printed result\<close>

text \<open>
  C3, as amended. For every value \<open>result\<close> that the run returns, with \<open>text\<close> its
  conversion to text \<open>str(result)\<close>, when standard output accepts \<open>text\<close> the one text
  printed is \<open>text\<close> itself, with nothing before or after it; standard output holds that
  text and the line terminator \<open>print\<close> writes.
\<close>

theorem result_printed:
  assumes "import_CodeAgent lib = None"
    and "CodeAgent lib [] [(''tools'', PyList [])] = Inr agent"
    and "run lib agent [PyStr ''What is the 15th prime number?''] [] = Inr result"
    and "obj_str result = Inr text"
    and "stdout_write out text = None"
  shows "printed (steps out lib) = [text] \<and> stdout_of out lib = text @ newline \<and>
         outcome out lib = Completed"
  using assms unfolding script_defs
  by (simp add: Let_def)

theorem result_printed_witness:
  "import_CodeAgent lib_answers = None \<and>
   CodeAgent lib_answers [] [(''tools'', PyList [])] = Inr 7 \<and>
   run lib_answers 7 [PyStr ''What is the 15th prime number?''] [] =
     Inr (PyObj (Inr (ascii ''47''))) \<and>
   obj_str (PyObj (Inr (ascii ''47''))) = Inr (ascii ''47'') \<and>
   stdout_write utf8_stdout (ascii ''47'') = None \<and>
   printed (steps utf8_stdout lib_answers) = [ascii ''47''] \<and>
   stdout_of utf8_stdout lib_answers = ascii ''47'' @ newline"
  using result_printed [of lib_answers 7 "PyObj (Inr (ascii ''47''))" "ascii ''47''" utf8_stdout]
  by (simp add: doubles)

text \<open>
  A \<open>run\<close> that returns the lone surrogate \<open>U+D800\<close>, printed to a UTF-8 stream: the write
  raises inside the \<open>try\<close>, and what is printed is the error line, not the result.
\<close>

theorem result_printed_counterexample:
  "import_CodeAgent lib_surrogate = None \<and>
   CodeAgent lib_surrogate [] [(''tools'', PyList [])] = Inr 7 \<and>
   run lib_surrogate 7 [PyStr ''What is the 15th prime number?''] [] = Inr (PyObj (Inr [55296])) \<and>
   obj_str (PyObj (Inr [55296])) = Inr [55296] \<and>
   printed (steps utf8_stdout lib_surrogate) =
     [ascii ''Error running CodeAgent: '' @ ascii ''codec cannot encode character''] \<and>
   printed (steps utf8_stdout lib_surrogate) \<noteq> [[55296]]"
  by (simp add: script_defs doubles) (simp add: ascii_def)


subsection \<open>The calls into the library\<close>

text \<open>
  C4, as amended. In every execution the calls the script makes into the library are these
  and no others: once the name is imported, the constructor with no positional argument
  and the one keyword argument \<open>tools=[]\<close>; once an agent is constructed, its \<open>run\<close> with
  the one positional argument \<open>"What is the 15th prime number?"\<close> and no keyword argument.
  When the import fails no call is made, and when the constructor raises \<open>run\<close> is not
  invoked.
\<close>

theorem calls_made:
  "filter is_call (steps out lib) =
     (case import_CodeAgent lib of
        Some e \<Rightarrow> []
      | None \<Rightarrow>
          (case CodeAgent lib [] [(''tools'', PyList [])] of
             Inl e \<Rightarrow> [Construct [] [(''tools'', PyList [])]]
           | Inr agent \<Rightarrow>
               [Construct [] [(''tools'', PyList [])],
                Run agent [PyStr ''What is the 15th prime number?''] []]))"
  unfolding script_defs
  by (auto simp: Let_def split: option.splits sum.splits)

theorem calls_made_witness:
  "filter is_call (steps utf8_stdout lib_strict) =
     [Construct [] [(''tools'', PyList [])],
      Run 7 [PyStr ''What is the 15th prime number?''] []]"
  using calls_made [of utf8_stdout lib_strict]
  by (simp add: doubles tools_empty_def)

text \<open>
  A constructor that raises a \<open>TypeError\<close> for its missing argument: the execution makes
  the constructor call and never invokes \<open>run\<close>.
\<close>

theorem calls_made_counterexample:
  "import_CodeAgent lib_missing_model = None \<and>
   CodeAgent lib_missing_model [] [(''tools'', PyList [])] = Inl missing_model \<and>
   filter is_call (steps utf8_stdout lib_missing_model) = [Construct [] [(''tools'', PyList [])]] \<and>
   filter is_Run (steps utf8_stdout lib_missing_model) = []"
  by (simp add: script_defs doubles)

subsection \<open>The order of the steps\<close>

text \<open>
  C5. In every execution the steps follow the order of the script's text, each position
  taken at most once: import, construction, run, entry into the handler, print. So the
  constructor is called at most once and \<open>run\<close> at most once; \<open>run\<close> is called only on
  the agent that the construction returned; and after a failure is caught no call into the
  library follows.
\<close>

theorem fixed_order:
  "sorted_wrt (<) (map stage (steps out lib)) \<and>
   length (filter is_Construct (steps out lib)) \<le> 1 \<and>
   length (filter is_Run (steps out lib)) \<le> 1 \<and>
   (\<forall>agent args kw. Run agent args kw \<in> set (steps out lib) \<longrightarrow>
       CodeAgent lib [] [(''tools'', PyList [])] = Inr agent) \<and>
   (\<forall>e before after. steps out lib = before @ Caught e # after \<longrightarrow> filter is_call after = [])"
  unfolding script_defs
  by (auto simp: Let_def append_eq_Cons_conv Cons_eq_append_conv split: option.splits sum.splits)

text \<open>At a \<open>run\<close> that raises: construction, run, handler, print.\<close>

theorem fixed_order_witness:
  "sorted_wrt (<) (map stage (steps utf8_stdout lib_run_fails)) \<and>
   Run 7 [PyStr ''What is the 15th prime number?''] [] \<in> set (steps utf8_stdout lib_run_fails) \<and>
   CodeAgent lib_run_fails [] [(''tools'', PyList [])] = Inr 7 \<and>
   steps utf8_stdout lib_run_fails =
     [Import, Construct [] [(''tools'', PyList [])],
      Run 7 [PyStr ''What is the 15th prime number?''] []]
     @ Caught missing_model
     # [Print (ascii ''Error running CodeAgent: '' @
               ascii ''missing 1 required positional argument: model'')] \<and>
   filter is_call
     [Print (ascii ''Error running CodeAgent: '' @
             ascii ''missing 1 required positional argument: model'') :: nat event] = []"
  using fixed_order [of utf8_stdout lib_run_fails]
  by (simp add: script_defs doubles)

subsection \<open>The exit status\<close>

text \<open>
  C6, as amended. For every behaviour of the library and of standard output in which the
  import succeeds, whatever ends the body of \<open>try\<close> is an instance of \<open>Exception\<close> that the
  handler can report, and the flush of standard output at exit does not fail, the process
  exits with status 0: the failure is printed and does not reach the exit status.
\<close>

theorem exit_status_zero:
  assumes "import_CodeAgent lib = None"
    and "failures_reported out lib"
    and "\<not> final_flush_fails out (stdout_of out lib)"
  shows "exit_status out lib = Exit_code 0"
proof -
  have "outcome out lib = Completed"
    using assms(1,2) unfolding script_defs failures_reported_def raised_in_try_def reported_def
    by (auto simp: Let_def split: option.splits sum.splits)
  with assms(3) show ?thesis
    by (simp add: exit_status_def)
qed

text \<open>At a result whose \<open>__str__\<close> raises a \<open>TypeError\<close>, which the handler reports.\<close>

theorem exit_status_zero_witness:
  "import_CodeAgent lib_result_str_fails = None \<and>
   failures_reported utf8_stdout lib_result_str_fails \<and>
   \<not> final_flush_fails utf8_stdout (stdout_of utf8_stdout lib_result_str_fails) \<and>
   exit_status utf8_stdout lib_result_str_fails = Exit_code 0"
  using exit_status_zero [of lib_result_str_fails utf8_stdout]
  by (simp add: failures_reported_def raised_in_try_def reported_def doubles
      tools_empty_def question_def)

text \<open>A \<open>run\<close> that calls \<open>sys.exit(1)\<close>: nothing is printed and the status is 1.\<close>

theorem exit_status_zero_counterexample:
  "import_CodeAgent lib_exits = None \<and>
   CodeAgent lib_exits [] [(''tools'', PyList [])] = Inr 7 \<and>
   run lib_exits 7 [PyStr ''What is the 15th prime number?''] [] = Inl sys_exit_1 \<and>
   stdout_of utf8_stdout lib_exits = [] \<and>
   exit_status utf8_stdout lib_exits = Exit_code 1"
  by (simp add: exit_status_def script_defs doubles)

subsection \<open>One print\<close>





subsection \<open>What the handler covers\<close>

text \<open>
  C8. A failure \<open>e\<close> raised by the import leaves the script uncaught, with nothing printed
  and no later step taken, whatever its class. The handler is entered with \<open>e\<close> exactly when
  the import succeeded and \<open>e\<close> is an instance of \<open>Exception\<close> raised by the construction,
  by the run, or by printing the result: by \<open>str(result)\<close> or by the write of its text.
\<close>

theorem import_outside_try:
  "(import_CodeAgent lib = Some e \<longrightarrow>
      outcome out lib = Uncaught e \<and> stdout_of out lib = [] \<and> steps out lib = [Import]) \<and>
   (Caught e \<in> set (steps out lib) \<longleftrightarrow>
      import_CodeAgent lib = None \<and> is_Exception e \<and>
      (CodeAgent lib [] [(''tools'', PyList [])] = Inl e \<or>
       (\<exists>agent. CodeAgent lib [] [(''tools'', PyList [])] = Inr agent \<and>
          (run lib agent [PyStr ''What is the 15th prime number?''] [] = Inl e \<or>
           (\<exists>result. run lib agent [PyStr ''What is the 15th prime number?''] [] = Inr result \<and>
              (obj_str result = Inl e \<or>
               (\<exists>text. obj_str result = Inr text \<and> stdout_write out text = Some e)))))))"
  unfolding script_defs
  by (auto simp: Let_def split: option.splits sum.splits)

text \<open>At a library that is not installed: the \<open>ModuleNotFoundError\<close> is an \<open>Exception\<close>.\<close>

theorem import_outside_try_witness:
  "import_CodeAgent lib_not_installed = Some not_installed \<and>
   is_Exception not_installed \<and>
   outcome utf8_stdout lib_not_installed = Uncaught not_installed \<and>
   stdout_of utf8_stdout lib_not_installed = [] \<and>
   Caught not_installed \<notin> set (steps utf8_stdout lib_not_installed)"
  using import_outside_try [of lib_not_installed not_installed utf8_stdout]
  by (simp add: doubles)

text \<open>
  C9. The handler is entered only with instances of \<open>Exception\<close>. A failure raised by the
  construction or by the run that is not an instance of \<open>Exception\<close> leaves the script
  uncaught, and nothing is printed: no error line.
\<close>

theorem only_Exception_caught:
  "(\<forall>e'. Caught e' \<in> set (steps out lib) \<longrightarrow> is_Exception e') \<and>
   (import_CodeAgent lib = None \<and> \<not> is_Exception e \<and>
    (CodeAgent lib [] [(''tools'', PyList [])] = Inl e \<or>
     (\<exists>agent. CodeAgent lib [] [(''tools'', PyList [])] = Inr agent \<and>
        run lib agent [PyStr ''What is the 15th prime number?''] [] = Inl e)) \<longrightarrow>
    outcome out lib = Uncaught e \<and> stdout_of out lib = [] \<and> printed (steps out lib) = [])"
  unfolding script_defs
  by (auto simp: Let_def split: option.splits sum.splits)

theorem only_Exception_caught_witness:
  "import_CodeAgent lib_interrupted = None \<and> \<not> is_Exception interrupt \<and>
   CodeAgent lib_interrupted [] [(''tools'', PyList [])] = Inr 7 \<and>
   run lib_interrupted 7 [PyStr ''What is the 15th prime number?''] [] = Inl interrupt \<and>
   outcome utf8_stdout lib_interrupted = Uncaught interrupt \<and>
   stdout_of utf8_stdout lib_interrupted = [] \<and>
   printed (steps utf8_stdout lib_interrupted) = []"
  using only_Exception_caught [of utf8_stdout lib_interrupted interrupt]
  by (simp add: doubles)

subsection \<open>Determinism\<close>




end
